theory Spec2Isabelle
  imports Complex_Main "HOL-Library.Log_Nat"
begin

section \<open>Court transcription system: data model\<close>

text \<open>
  Times are Python floats (from the recogniser and the diarizer; the integer literals of the
  hard-coded fallback turns convert exactly). A finite float is the rational number it
  denotes, so comparison, \<open>min\<close> and \<open>max\<close> are those of the rationals; the subtraction
  of two floats rounds, see \<open>float_sub\<close> below.
  Dictionaries with a fixed set of keys are records. The key \<open>"confidence"\<close> of a
  transcribed segment is read with \<open>segment.get("confidence", 0.0)\<close>, so it is optional.
\<close>

record DiarizationTurn =
  turn_start :: rat
  turn_end :: rat
  turn_speaker :: string

record TranscribedSegment =
  seg_start :: rat
  seg_end :: rat
  seg_text :: string
  seg_confidence :: "rat option"

record FusedSegment =
  fs_id :: string
  fs_speaker :: string
  fs_text :: string
  fs_start_time :: rat
  fs_end_time :: rat
  fs_confidence :: rat

text \<open>Exceptions are values; \<open>str(e)\<close> is the message.\<close>

datatype exn = ImportError string | AttributeError string | Exception string

fun str_exn :: "exn \<Rightarrow> string" where
  "str_exn (ImportError m) = m"
| "str_exn (AttributeError m) = m"
| "str_exn (Exception m) = m"

section \<open>Float subtraction\<close>

text \<open>
  Python's \<open>a - b\<close> on floats is the IEEE 754 binary64 subtraction: the exact difference,
  rounded to the nearest number with 53 significant bits, ties to the even significand.
  \<open>ilog2 x\<close> is the binary exponent of a positive \<open>x\<close>, the integer \<open>e\<close> with
  \<open>2 powi e \<le> x < 2 powi (e + 1)\<close>; the spacing of the representable numbers around
  \<open>x\<close> is \<open>2 powi (e - 52)\<close>. The exponent is not bounded here: times in seconds are far from the
  overflow threshold, and a difference of two floats that falls below the normal range is a
  multiple of the smallest subnormal number, which both the format and this rounding return
  unchanged.
\<close>

definition ilog2 :: "rat \<Rightarrow> int" where
  "ilog2 x =
     (if 1 \<le> x then int (floorlog 2 (nat \<lfloor>x\<rfloor>)) - 1
      else - int (floorlog 2 (nat (\<lceil>1 / x\<rceil> - 1))))"

definition round_half_even :: "rat \<Rightarrow> int" where
  "round_half_even y =
     (let f = \<lfloor>y\<rfloor>; r = y - of_int f
      in if r < 1 / 2 then f
         else if 1 / 2 < r then f + 1
         else if even f then f else f + 1)"

definition round_double :: "rat \<Rightarrow> rat" where
  "round_double x =
     (if x = 0 then 0
      else (let q = power_int 2 (ilog2 \<bar>x\<bar> - 52)
            in sgn x * (q * of_int (round_half_even (\<bar>x\<bar> / q)))))"

definition float_sub :: "rat \<Rightarrow> rat \<Rightarrow> rat" where
  "float_sub a b = round_double (a - b)"

section \<open>transcription\_service.py: segment fusion\<close>

text \<open>
  The body of the inner \<open>for spk_segment in speaker_segments\<close> loop of
  \<open>_combine_transcription_with_speakers\<close>: the overlap of one diarization turn with the
  transcribed segment.
\<close>

definition overlap :: "TranscribedSegment \<Rightarrow> DiarizationTurn \<Rightarrow> rat" where
  "overlap segment spk_segment =
     (let overlap_start = max (seg_start segment) (turn_start spk_segment);
          overlap_end = min (seg_end segment) (turn_end spk_segment)
      in max 0 (float_sub overlap_end overlap_start))"

text \<open>
  The inner loop, with its two loop variables \<open>(best_speaker, max_overlap)\<close> as the
  accumulator.
\<close>

fun speaker_loop ::
  "TranscribedSegment \<Rightarrow> DiarizationTurn list \<Rightarrow> string \<times> rat \<Rightarrow> string \<times> rat" where
  "speaker_loop segment [] (best_speaker, max_overlap) = (best_speaker, max_overlap)"
| "speaker_loop segment (spk_segment # rest) (best_speaker, max_overlap) =
     (if overlap segment spk_segment > max_overlap
      then speaker_loop segment rest (turn_speaker spk_segment, overlap segment spk_segment)
      else speaker_loop segment rest (best_speaker, max_overlap))"

definition find_best_speaker :: "TranscribedSegment \<Rightarrow> DiarizationTurn list \<Rightarrow> string" where
  "find_best_speaker segment speaker_segments =
     fst (speaker_loop segment speaker_segments (''Unknown'', 0))"

text \<open>
  The outer loop. Each appended dictionary takes a fresh \<open>str(uuid.uuid4())\<close>; the
  generator is a supply \<open>uuid4\<close> indexed by the number of identifiers drawn so far, and
  the loop returns that counter with the list.
\<close>

definition fuse_one ::
  "string \<Rightarrow> TranscribedSegment \<Rightarrow> DiarizationTurn list \<Rightarrow> FusedSegment" where
  "fuse_one new_id segment speaker_segments =
     \<lparr>fs_id = new_id,
      fs_speaker = find_best_speaker segment speaker_segments,
      fs_text = seg_text segment,
      fs_start_time = seg_start segment,
      fs_end_time = seg_end segment,
      fs_confidence = (case seg_confidence segment of None \<Rightarrow> 0 | Some c \<Rightarrow> c)\<rparr>"

fun combine_loop ::
  "(nat \<Rightarrow> string) \<Rightarrow> nat \<Rightarrow> TranscribedSegment list \<Rightarrow> DiarizationTurn list
     \<Rightarrow> FusedSegment list \<times> nat" where
  "combine_loop uuid4 n [] speaker_segments = ([], n)"
| "combine_loop uuid4 n (segment # rest) speaker_segments =
     (let (combined, n') = combine_loop uuid4 (Suc n) rest speaker_segments
      in (fuse_one (uuid4 n) segment speaker_segments # combined, n'))"

definition combine_transcription_with_speakers ::
  "(nat \<Rightarrow> string) \<Rightarrow> nat \<Rightarrow> TranscribedSegment list \<Rightarrow> DiarizationTurn list
     \<Rightarrow> FusedSegment list" where
  "combine_transcription_with_speakers uuid4 n transcribed_segments speaker_segments =
     fst (combine_loop uuid4 n transcribed_segments speaker_segments)"

section \<open>diarization\_service.py\<close>

text \<open>
  \<open>str.split(sep)\<close> with an explicit one-character separator: the result is never empty,
  and an empty input gives one empty field.
\<close>

fun py_split :: "char \<Rightarrow> string \<Rightarrow> string list" where
  "py_split sep [] = [[]]"
| "py_split sep (c # cs) =
     (if c = sep then [] # py_split sep cs
      else (case py_split sep cs of
              [] \<Rightarrow> [[c]]
            | w # ws \<Rightarrow> (c # w) # ws))"

text \<open>\<open>_map_speaker_to_role\<close>: \<open>speaker.split("_")[-1]\<close>, then the \<open>if\<close>/\<open>elif\<close> chain.\<close>

definition map_speaker_to_role :: "string \<Rightarrow> string" where
  "map_speaker_to_role speaker =
     (let speaker_id = last (py_split (CHR ''_'') speaker)
      in if speaker_id = ''0'' then ''Judge''
         else if speaker_id = ''1'' then ''Advocate (Plaintiff)''
         else if speaker_id = ''2'' then ''Advocate (Defense)''
         else ''Speaker '' @ speaker_id)"

text \<open>
  What \<open>DiarizationService\<close> reads from outside the repository. \<open>import librosa\<close> is
  executed at each call of \<open>_generate_mock_segments\<close> and raises when the package is not
  installed; \<open>audio_duration\<close> is \<open>librosa.load\<close> followed by \<open>librosa.get_duration\<close>;
  \<open>pipeline\<close> is the pyannote pipeline with \<open>itertracks(yield_label=True)\<close>, giving
  \<open>(turn.start, turn.end, speaker)\<close>; \<open>diarization_available\<close> is the flag set by the
  constructor.
\<close>

record diarization_env =
  librosa_installed :: bool
  audio_duration :: "string \<Rightarrow> exn + rat"
  diarization_available :: bool
  pipeline :: "string \<Rightarrow> exn + (rat \<times> rat \<times> string) list"

text \<open>\<open>int(x)\<close> on a number truncates towards zero.\<close>

definition py_int :: "rat \<Rightarrow> int" where
  "py_int x = (if 0 \<le> x then \<lfloor>x\<rfloor> else \<lceil>x\<rceil>)"

definition speaker_roles :: "string list" where
  "speaker_roles = [''Judge'', ''Advocate (Plaintiff)'', ''Advocate (Defense)'', ''Witness'']"

definition segment_length :: rat where
  "segment_length = 10"

definition mock_segment :: "rat \<Rightarrow> nat \<Rightarrow> DiarizationTurn" where
  "mock_segment duration i =
     \<lparr>turn_start = of_nat i * segment_length,
      turn_end = min ((of_nat i + 1) * segment_length) duration,
      turn_speaker = speaker_roles ! (i mod length speaker_roles)\<rparr>"

definition minimal_segments :: "DiarizationTurn list" where
  "minimal_segments =
     [\<lparr>turn_start = 0, turn_end = 30, turn_speaker = ''Judge''\<rparr>,
      \<lparr>turn_start = 30, turn_end = 60, turn_speaker = ''Advocate (Plaintiff)''\<rparr>,
      \<lparr>turn_start = 60, turn_end = 90, turn_speaker = ''Advocate (Defense)''\<rparr>]"

text \<open>
  \<open>_generate_mock_segments\<close>. The import stands before the \<open>try\<close>, so its failure leaves
  the function as an exception; any exception inside the \<open>try\<close> gives the three hard-coded
  turns.
\<close>

definition generate_mock_segments ::
  "diarization_env \<Rightarrow> string \<Rightarrow> exn + DiarizationTurn list" where
  "generate_mock_segments env audio_file =
     (if \<not> librosa_installed env then Inl (ImportError ''No module named librosa'')
      else (case audio_duration env audio_file of
              Inl e \<Rightarrow> Inr minimal_segments
            | Inr duration \<Rightarrow>
                (let num_segments = py_int (duration / segment_length)
                 in Inr (map (mock_segment duration) [0..<nat num_segments]))))"

definition diarize :: "diarization_env \<Rightarrow> string \<Rightarrow> exn + DiarizationTurn list" where
  "diarize env audio_file =
     (if \<not> diarization_available env then generate_mock_segments env audio_file
      else (case pipeline env audio_file of
              Inl e \<Rightarrow> generate_mock_segments env audio_file
            | Inr tracks \<Rightarrow>
                Inr (map (\<lambda>(s, e, speaker).
                       \<lparr>turn_start = s, turn_end = e,
                        turn_speaker = map_speaker_to_role speaker\<rparr>) tracks)))"

section \<open>noise\_suppression.py\<close>

text \<open>
  The audio libraries, as \<open>NoiseSuppression.process\<close> uses them. \<open>'a\<close> is a loaded signal
  with its sample rate. \<open>spectral_subtraction\<close> is the numerical filter
  (\<open>_spectral_subtraction\<close>, floating-point STFT arithmetic), \<open>named_temporary_file\<close> the
  path of the temporary file, \<open>sf_write\<close> the write of the filtered signal; each may raise.
\<close>

record 'a audio_libs =
  AUDIO_LIBS_AVAILABLE :: bool
  librosa_load :: "string \<Rightarrow> exn + 'a"
  spectral_subtraction :: "'a \<Rightarrow> exn + 'a"
  named_temporary_file :: "exn + string"
  sf_write :: "string \<Rightarrow> 'a \<Rightarrow> exn + unit"

text \<open>The body of the \<open>try\<close> block of \<open>process\<close>: the first exception ends it.\<close>

definition process_body :: "'a audio_libs \<Rightarrow> string \<Rightarrow> exn + string" where
  "process_body libs audio_file =
     (case librosa_load libs audio_file of
        Inl e \<Rightarrow> Inl e
      | Inr audio \<Rightarrow>
          (case spectral_subtraction libs audio of
             Inl e \<Rightarrow> Inl e
           | Inr audio_filtered \<Rightarrow>
               (case named_temporary_file libs of
                  Inl e \<Rightarrow> Inl e
                | Inr cleaned_audio_path \<Rightarrow>
                    (case sf_write libs cleaned_audio_path audio_filtered of
                       Inl e \<Rightarrow> Inl e
                     | Inr u \<Rightarrow> Inr cleaned_audio_path))))"

definition process :: "'a audio_libs \<Rightarrow> string \<Rightarrow> exn + string" where
  "process libs audio_file =
     (if \<not> AUDIO_LIBS_AVAILABLE libs then Inr audio_file
      else (case process_body libs audio_file of
              Inl e \<Rightarrow> Inr audio_file
            | Inr cleaned_audio_path \<Rightarrow> Inr cleaned_audio_path))"

section \<open>Transcripts\<close>

record Metadata =
  md_created_at :: string
  md_audio_file :: string
  md_processing_time :: rat
  md_model :: string
  md_device :: string
  md_speakers_detected :: nat
  md_case_id :: "string option"

record CaseDetails =
  cd_case_id :: string
  cd_case_title :: string
  cd_court :: string
  cd_judge :: string
  cd_date :: string

record Transcript =
  tr_id :: string
  tr_segments :: "FusedSegment list"
  tr_metadata :: Metadata
  tr_case_details :: "CaseDetails option"
  tr_status :: string

section \<open>storage\_service.py\<close>

text \<open>
  The two tables. \<open>transcripts\<close> has \<open>id\<close> as its primary key, so it is a map from the
  identifier to the rest of the row; the audit log is the list of its rows in insertion
  order. \<open>'j\<close> is the serialised form of a transcript (the JSON text).
\<close>

record 'j transcript_row =
  row_data :: 'j
  row_created_at :: string
  row_updated_at :: string
  row_case_id :: "string option"
  row_hash :: string

record audit_row =
  log_id :: string
  log_transcript_id :: string
  log_action :: string
  log_user :: string
  log_timestamp :: string
  log_details :: string

record 'j database =
  transcripts :: "string \<rightharpoonup> 'j transcript_row"
  audit_log :: "audit_row list"

text \<open>
  The libraries the storage service calls: \<open>json.dumps\<close>, \<open>json.loads\<close> (which raises on
  text that does not parse), \<open>hashlib.sha256(...).hexdigest()\<close>, and \<open>sqlite3\<close>, whose
  calls raise \<open>db_error\<close> when it is set. \<open>now\<close> is \<open>datetime.now().isoformat()\<close> and
  \<open>new_log_id\<close> the \<open>str(uuid.uuid4())\<close> of the call.
\<close>

record 'j storage_env =
  json_dumps :: "Transcript \<Rightarrow> 'j"
  json_loads :: "'j \<Rightarrow> exn + Transcript"
  sha256_hexdigest :: "'j \<Rightarrow> string"
  db_error :: "exn option"
  now :: string
  new_log_id :: string

text \<open>\<open>str(n)\<close> for a length.\<close>

function str_nat :: "nat \<Rightarrow> string" where
  "str_nat n =
     (if n < 10 then [char_of (48 + n)]
      else str_nat (n div 10) @ [char_of (48 + n mod 10)])"
  by pat_completeness auto
termination
  by (relation "measure id") auto

text \<open>
  \<open>store_transcript\<close>. The row tuple evaluates
  \<open>transcript_data.get("case_details", {}).get("case_id")\<close>: the key is always present, so
  a transcript without case details gives \<open>None.get\<close>, an exception caught by the handler.
  An identifier already in the table violates the primary key. Without \<open>commit\<close> nothing
  is written.
\<close>

definition store_transcript ::
  "'j storage_env \<Rightarrow> 'j database \<Rightarrow> string \<Rightarrow> Transcript \<Rightarrow> bool \<times> 'j database" where
  "store_transcript env db transcript_id transcript_data =
     (let json_data = json_dumps env transcript_data;
          data_hash = sha256_hexdigest env json_data;
          timestamp = now env
      in case db_error env of
           Some e \<Rightarrow> (False, db)
         | None \<Rightarrow>
             (case tr_case_details transcript_data of
                None \<Rightarrow> (False, db)
              | Some case_details \<Rightarrow>
                  if transcript_id \<in> dom (transcripts db) then (False, db)
                  else (True,
                    db\<lparr>transcripts := (transcripts db)(transcript_id \<mapsto>
                          \<lparr>row_data = json_data, row_created_at = timestamp,
                           row_updated_at = timestamp,
                           row_case_id = Some (cd_case_id case_details),
                           row_hash = data_hash\<rparr>),
                       audit_log := audit_log db @
                         [\<lparr>log_id = new_log_id env, log_transcript_id = transcript_id,
                           log_action = ''create'', log_user = ''system'',
                           log_timestamp = timestamp,
                           log_details = ''Created transcript with '' @
                             str_nat (length (tr_segments transcript_data)) @
                             '' segments''\<rparr>]\<rparr>)))"

text \<open>\<open>get_transcript\<close>: every exception, and a hash that does not match, give \<open>None\<close>.\<close>

definition get_transcript ::
  "'j storage_env \<Rightarrow> 'j database \<Rightarrow> string \<Rightarrow> Transcript option" where
  "get_transcript env db transcript_id =
     (case db_error env of
        Some e \<Rightarrow> None
      | None \<Rightarrow>
          (case transcripts db transcript_id of
             None \<Rightarrow> None
           | Some row \<Rightarrow>
               (let json_data = row_data row;
                    stored_hash = row_hash row;
                    computed_hash = sha256_hexdigest env json_data
                in if computed_hash \<noteq> stored_hash then None
                   else (case json_loads env json_data of
                           Inl e \<Rightarrow> None
                         | Inr transcript \<Rightarrow> Some transcript))))"

text \<open>
  The loop of \<open>update_transcript_segment\<close> over the segments, with its \<open>break\<close>: the
  updated list and the flag \<open>segment_updated\<close>.
\<close>

fun update_loop :: "string \<Rightarrow> string \<Rightarrow> FusedSegment list \<Rightarrow> FusedSegment list \<times> bool" where
  "update_loop segment_id new_text [] = ([], False)"
| "update_loop segment_id new_text (segment # rest) =
     (if fs_id segment = segment_id then (segment\<lparr>fs_text := new_text\<rparr> # rest, True)
      else (let (rest', segment_updated) = update_loop segment_id new_text rest
            in (segment # rest', segment_updated)))"

text \<open>
  \<open>update_transcript_segment\<close>. The \<open>UPDATE ... WHERE id = ?\<close> changes the data, the
  update time and the hash of the row with this identifier, if there is one.
\<close>

definition update_transcript_segment ::
  "'j storage_env \<Rightarrow> 'j database \<Rightarrow> string \<Rightarrow> string \<Rightarrow> string \<Rightarrow> string
     \<Rightarrow> bool \<times> 'j database" where
  "update_transcript_segment env db transcript_id segment_id new_text user =
     (case get_transcript env db transcript_id of
        None \<Rightarrow> (False, db)
      | Some transcript \<Rightarrow>
          (let (segments', segment_updated) =
                 update_loop segment_id new_text (tr_segments transcript)
           in if \<not> segment_updated then (False, db)
              else (let json_data = json_dumps env (transcript\<lparr>tr_segments := segments'\<rparr>);
                        data_hash = sha256_hexdigest env json_data;
                        timestamp = now env
                    in case db_error env of
                         Some e \<Rightarrow> (False, db)
                       | None \<Rightarrow> (True,
                           db\<lparr>transcripts := (transcripts db)(transcript_id :=
                                 map_option (\<lambda>row. row\<lparr>row_data := json_data,
                                                         row_updated_at := timestamp,
                                                         row_hash := data_hash\<rparr>)
                                   (transcripts db transcript_id)),
                              audit_log := audit_log db @
                                [\<lparr>log_id = new_log_id env, log_transcript_id = transcript_id,
                                  log_action = ''update_segment'', log_user = user,
                                  log_timestamp = timestamp,
                                  log_details = ''Updated segment '' @ segment_id\<rparr>]\<rparr>))))"

section \<open>transcription\_service.py: the pipeline\<close>

text \<open>
  The collaborators injected into \<open>CourtTranscriptionService\<close> and the loaded Whisper model;
  each call returns or raises. The storage call works on a store of type \<open>'st\<close>.
  \<open>model_name\<close> is the attribute read \<open>self.model.name\<close>: it raises \<open>AttributeError\<close>
  when the model object has no attribute of this name, as is the case for the object that
  \<open>whisper.load_model\<close> returns.
  \<open>uuid4\<close> is the supply of fresh identifiers, \<open>created_at\<close> and \<open>today\<close> the two
  readings of \<open>datetime.now()\<close>, \<open>processing_time\<close> the elapsed time.
\<close>

record 'st services =
  noise_suppression_process :: "string \<Rightarrow> exn + string"
  diarization_service_diarize :: "string \<Rightarrow> exn + DiarizationTurn list"
  model_transcribe :: "string \<Rightarrow> exn + TranscribedSegment list"
  model_name :: "exn + string"
  device :: string
  storage_service_store_transcript :: "string \<Rightarrow> Transcript \<Rightarrow> 'st \<Rightarrow> (exn + bool) \<times> 'st"
  uuid4 :: "nat \<Rightarrow> string"
  created_at :: string
  today :: string
  processing_time :: rat

text \<open>\<open>os.path.basename\<close>: what follows the last slash.\<close>

definition basename :: "string \<Rightarrow> string" where
  "basename path = rev (takeWhile (\<lambda>c. c \<noteq> CHR ''/'') (rev path))"

definition get_case_details :: "'st services \<Rightarrow> string \<Rightarrow> CaseDetails" where
  "get_case_details svc case_id =
     \<lparr>cd_case_id = case_id,
      cd_case_title = ''Case #'' @ case_id,
      cd_court = ''District Court'',
      cd_judge = ''Hon. Judge Smith'',
      cd_date = today svc\<rparr>"

text \<open>The first two \<open>try\<close> blocks of \<open>process_audio\<close>, each with its handler.\<close>

definition noise_stage :: "'st services \<Rightarrow> string \<Rightarrow> string" where
  "noise_stage svc audio_file =
     (case noise_suppression_process svc audio_file of
        Inl e \<Rightarrow> audio_file
      | Inr clean_audio_file \<Rightarrow> clean_audio_file)"

definition diarization_stage :: "'st services \<Rightarrow> string \<Rightarrow> DiarizationTurn list" where
  "diarization_stage svc clean_audio_file =
     (case diarization_service_diarize svc clean_audio_file of
        Inl e \<Rightarrow> []
      | Inr speaker_segments \<Rightarrow> speaker_segments)"

text \<open>
  The statements of \<open>process_audio\<close> between the recognition and the storage call, all
  outside any \<open>try\<close>: the fusion, the transcript identifier, the metadata and the
  transcript. The metadata reads \<open>self.model.name\<close>, and an exception of this read leaves
  \<open>process_audio\<close>. A case identifier that is \<open>None\<close> or empty is falsy, and then
  \<open>case_details\<close> is \<open>None\<close>.
\<close>

definition assemble_transcript ::
  "'st services \<Rightarrow> string \<Rightarrow> string option \<Rightarrow> TranscribedSegment list
     \<Rightarrow> DiarizationTurn list \<Rightarrow> exn + Transcript" where
  "assemble_transcript svc audio_file case_id transcribed_segments speaker_segments =
     (let combined_segments =
            combine_transcription_with_speakers (uuid4 svc) 0 transcribed_segments
              speaker_segments;
          transcript_id = uuid4 svc (length transcribed_segments)
      in case model_name svc of
           Inl e \<Rightarrow> Inl e
         | Inr name \<Rightarrow>
             (let metadata =
                    \<lparr>md_created_at = created_at svc,
                     md_audio_file = basename audio_file,
                     md_processing_time = processing_time svc,
                     md_model = ''whisper-'' @ name,
                     md_device = device svc,
                     md_speakers_detected =
                       (if speaker_segments \<noteq> []
                        then length (remdups (map turn_speaker speaker_segments)) else 0),
                     md_case_id = case_id\<rparr>
              in Inr \<lparr>tr_id = transcript_id,
                      tr_segments = combined_segments,
                      tr_metadata = metadata,
                      tr_case_details =
                        (case case_id of
                           None \<Rightarrow> None
                         | Some c \<Rightarrow>
                             if c \<noteq> [] then Some (get_case_details svc c) else None),
                      tr_status = ''success''\<rparr>))"

text \<open>
  \<open>process_audio\<close>: the result, and the store after the call. The recognition block
  re-raises, and the statements after it are not guarded.
\<close>

definition process_audio ::
  "'st services \<Rightarrow> 'st \<Rightarrow> string \<Rightarrow> string option \<Rightarrow> (exn + Transcript) \<times> 'st" where
  "process_audio svc store audio_file case_id =
     (let clean_audio_file = noise_stage svc audio_file;
          speaker_segments = diarization_stage svc clean_audio_file
      in case model_transcribe svc clean_audio_file of
           Inl e \<Rightarrow> (Inl (Exception (''Speech recognition failed: '' @ str_exn e)), store)
         | Inr transcribed_segments \<Rightarrow>
             (case assemble_transcript svc audio_file case_id transcribed_segments
                     speaker_segments of
                Inl e \<Rightarrow> (Inl e, store)
              | Inr transcript \<Rightarrow>
                  (Inr transcript,
                   snd (storage_service_store_transcript svc (tr_id transcript) transcript
                          store))))"

section \<open>Concrete instances\<close>

text \<open>
  A small stored transcript, a store that holds it under \<open>t1\<close> next to a row \<open>t2\<close> whose
  hash does not match its data, and library stand-ins for which the serialised form of a
  transcript is the transcript itself and the digest is built from its identifier and texts.
\<close>

definition example_transcript :: Transcript where
  "example_transcript =
     \<lparr>tr_id = ''t1'',
      tr_segments =
        [\<lparr>fs_id = ''s1'', fs_speaker = ''Judge'', fs_text = ''Order.'',
          fs_start_time = 0, fs_end_time = 4, fs_confidence = 0\<rparr>,
         \<lparr>fs_id = ''s2'', fs_speaker = ''Witness'', fs_text = ''I sore it.'',
          fs_start_time = 4, fs_end_time = 9, fs_confidence = 0\<rparr>],
      tr_metadata =
        \<lparr>md_created_at = ''2024-01-01T10:00:00'', md_audio_file = ''hearing.wav'',
         md_processing_time = 3, md_model = ''whisper-base'', md_device = ''cpu'',
         md_speakers_detected = 2, md_case_id = Some ''42''\<rparr>,
      tr_case_details =
        Some \<lparr>cd_case_id = ''42'', cd_case_title = ''Case #42'', cd_court = ''District Court'',
              cd_judge = ''Hon. Judge Smith'', cd_date = ''2024-01-01''\<rparr>,
      tr_status = ''success''\<rparr>"

definition example_digest :: "Transcript \<Rightarrow> string" where
  "example_digest t = tr_id t @ concat (map fs_text (tr_segments t))"

definition example_env :: "Transcript storage_env" where
  "example_env =
     \<lparr>json_dumps = (\<lambda>t. t), json_loads = (\<lambda>j. Inr j), sha256_hexdigest = example_digest,
      db_error = None, now = ''2024-01-02T09:00:00'', new_log_id = ''log-7''\<rparr>"

definition example_db :: "Transcript database" where
  "example_db =
     \<lparr>transcripts =
        [''t1'' \<mapsto> \<lparr>row_data = example_transcript,
                    row_created_at = ''2024-01-01T10:00:03'',
                    row_updated_at = ''2024-01-01T10:00:03'',
                    row_case_id = Some ''42'',
                    row_hash = example_digest example_transcript\<rparr>,
         ''t2'' \<mapsto> \<lparr>row_data = example_transcript\<lparr>tr_id := ''t2''\<rparr>,
                    row_created_at = ''2024-01-01T11:00:00'',
                    row_updated_at = ''2024-01-01T11:00:00'',
                    row_case_id = Some ''42'',
                    row_hash = ''0000''\<rparr>],
      audit_log = []\<rparr>"

text \<open>
  Collaborators of the pipeline of which the noise filter, the diarizer and the store all
  raise, while the recogniser returns one segment; the model object has no attribute
  \<open>name\<close>.
\<close>

definition example_services :: "nat services" where
  "example_services =
     \<lparr>noise_suppression_process = (\<lambda>f. Inl (Exception ''filter failed'')),
      diarization_service_diarize = (\<lambda>f. Inl (ImportError ''No module named librosa'')),
      model_transcribe = (\<lambda>f. Inr [\<lparr>seg_start = 0, seg_end = 4, seg_text = ''Order.'',
                                       seg_confidence = None\<rparr>]),
      model_name = Inl (AttributeError ''Whisper object has no attribute name''),
      device = ''cpu'',
      storage_service_store_transcript = (\<lambda>i t s. (Inl (Exception ''database is locked''), s)),
      uuid4 = (\<lambda>k. if k = 0 then ''u0'' else ''u1''),
      created_at = ''2024-01-01T10:00:00'',
      today = ''2024-01-01'',
      processing_time = 3\<rparr>"

text \<open>Audio libraries that are installed and of which the last step, the write, raises.\<close>

definition example_libs :: "nat audio_libs" where
  "example_libs =
     \<lparr>AUDIO_LIBS_AVAILABLE = True,
      librosa_load = (\<lambda>f. Inr 16000),
      spectral_subtraction = (\<lambda>a. Inr a),
      named_temporary_file = Inr ''/tmp/tmpab12.wav'',
      sf_write = (\<lambda>p a. Inl (Exception ''disk full''))\<rparr>"

section \<open>Float subtraction: results\<close>

lemma ilog2_lower:
  assumes "0 < x"
  shows "power_int 2 (ilog2 x) \<le> x"
proof (cases "1 \<le> x")
  case True
  define n where "n = nat \<lfloor>x\<rfloor>"
  have n: "0 < n" using True by (simp add: n_def)
  from floorlog_bounds [of n 2] n have "2 ^ (floorlog 2 n - 1) \<le> n" by simp
  then have "(of_nat (2 ^ (floorlog 2 n - 1)) :: rat) \<le> of_nat n"
    by (simp only: of_nat_le_iff)
  then have "(2::rat) ^ (floorlog 2 n - 1) \<le> of_nat n"
    by simp
  also have "\<dots> \<le> x" using True by (simp add: n_def)
  finally have "(2::rat) ^ (floorlog 2 n - 1) \<le> x" .
  moreover have "0 < floorlog 2 n" using n by (simp add: floorlog_def)
  ultimately show ?thesis
    using True by (simp add: ilog2_def n_def [symmetric] power_int_def nat_diff_distrib' )
next
  case False
  define k where "k = \<lceil>1 / x\<rceil>"
  define m where "m = nat (k - 1)"
  have "1 < 1 / x" using False assms by simp
  then have "1 < k" unfolding k_def by (simp only: one_less_ceiling)
  then have m: "0 < m" and km: "int m + 1 = k" by (simp_all add: m_def)
  from floorlog_bounds [of m 2] m have "m < 2 ^ floorlog 2 m" by simp
  then have "int m < int (2 ^ floorlog 2 m)"
    by (simp only: of_nat_less_iff)
  then have "int m + 1 \<le> int (2 ^ floorlog 2 m)"
    by linarith
  also have "int (2 ^ floorlog 2 m) = 2 ^ floorlog 2 m"
    by simp
  finally have "k \<le> 2 ^ floorlog 2 m" by (simp only: km)
  then have "1 / x \<le> of_int (2 ^ floorlog 2 m)"
    unfolding k_def by (simp only: ceiling_le_iff)
  then have "1 / x \<le> 2 ^ floorlog 2 m" by simp
  then have "1 / 2 ^ floorlog 2 m \<le> x"
    using assms by (simp add: field_simps)
  moreover have "ilog2 x = - int (floorlog 2 m)"
    using False by (simp add: ilog2_def m_def k_def)
  ultimately show ?thesis
    by (simp add: power_int_minus inverse_eq_divide)
qed

lemma round_half_even_ge: "1 \<le> y \<Longrightarrow> 1 \<le> round_half_even y"
  by (auto simp: round_half_even_def Let_def)

lemma round_double_pos:
  assumes "0 < x"
  shows "0 < round_double x"
proof -
  define q :: rat where "q = power_int 2 (ilog2 x - 52)"
  have q: "0 < q" by (simp add: q_def)
  have "q \<le> power_int 2 (ilog2 x)"
    unfolding q_def by (rule power_int_increasing) simp_all
  also have "\<dots> \<le> x" using assms by (rule ilog2_lower)
  finally have "1 \<le> x / q" using q by (simp add: field_simps)
  then have "1 \<le> round_half_even (x / q)" by (rule round_half_even_ge)
  then have "0 < q * of_int (round_half_even (x / q))"
    using q by (simp add: zero_less_mult_iff)
  then show ?thesis
    using assms by (simp add: round_double_def q_def Let_def)
qed

lemma round_double_minus: "round_double (- x) = - round_double x"
  by (simp add: round_double_def Let_def)

lemma round_double_sign: "0 < round_double x \<longleftrightarrow> 0 < x"
proof (cases "0 < x")
  case True then show ?thesis by (simp add: round_double_pos)
next
  case False
  show ?thesis
  proof (cases "x = 0")
    case True then show ?thesis by (simp add: round_double_def)
  next
    case f: False
    with False have "0 < - x" by simp
    then have "0 < round_double (- x)" by (rule round_double_pos)
    then show ?thesis using False by (simp add: round_double_minus)
  qed
qed

lemma float_sub_pos_iff: "0 < float_sub a b \<longleftrightarrow> b < a"
  by (simp add: float_sub_def round_double_sign)

lemma float_sub_nonpos_iff: "float_sub a b \<le> 0 \<longleftrightarrow> a \<le> b"
  using float_sub_pos_iff [of a b] by (simp add: not_less [symmetric])

lemma float_sub_same: "float_sub a a = 0"
  by (simp add: float_sub_def round_double_def)

text \<open>An integer below \<open>2 ^ 53\<close> in absolute value is a float, so a difference with such a
  value is exact.\<close>

lemma round_half_even_of_int: "round_half_even (of_int m) = m"
  by (simp add: round_half_even_def)

lemma round_double_of_int_pos:
  assumes "0 < n" and "n < 2 ^ 53"
  shows "round_double (of_int n) = of_int n"
proof -
  define fl where "fl = floorlog 2 (nat n)"
  have n0: "0 < nat n" using assms by simp
  from floorlog_bounds [of "nat n" 2] n0 have lo: "2 ^ (fl - 1) \<le> nat n"
    by (simp add: fl_def)
  have "nat n < 2 ^ 53" using assms by (simp add: nat_less_iff)
  with lo have "(2::nat) ^ (fl - 1) < 2 ^ 53" by linarith
  then have "fl - 1 < 53" by (simp only: power_strict_increasing_iff)
  moreover have "0 < fl" using n0 by (simp add: fl_def floorlog_def)
  ultimately have fl: "1 \<le> fl" "fl \<le> 53" by simp_all
  define k where "k = 53 - fl"
  have e: "ilog2 (of_int n) = int fl - 1"
    using assms by (simp add: ilog2_def fl_def)
  have q: "power_int (2::rat) (ilog2 (of_int n) - 52) = 1 / 2 ^ k"
  proof -
    have "ilog2 (of_int n) - 52 = - int k" using fl by (simp add: e k_def)
    then show ?thesis by (simp add: power_int_minus inverse_eq_divide)
  qed
  have "rat_of_int n * 2 ^ k = of_int (n * 2 ^ k)"
    by simp
  then have r: "round_half_even (rat_of_int n * 2 ^ k) = n * 2 ^ k"
    by (simp only: round_half_even_of_int)
  have "round_double (of_int n) =
        1 / 2 ^ k * of_int (round_half_even (rat_of_int n / (1 / 2 ^ k)))"
    using assms by (simp add: round_double_def Let_def q del: divide_divide_eq_right)
  also have "rat_of_int n / (1 / 2 ^ k) = rat_of_int n * 2 ^ k"
    by simp
  also have "1 / 2 ^ k * rat_of_int (round_half_even (rat_of_int n * 2 ^ k)) = rat_of_int n"
    by (simp add: r)
  finally show ?thesis .
qed

lemma round_double_of_int:
  assumes "\<bar>n\<bar> < 2 ^ 53"
  shows "round_double (of_int n) = of_int n"
proof -
  consider "0 < n" | "n = 0" | "n < 0" by linarith
  then show ?thesis
  proof cases
    case 1 with assms show ?thesis by (simp add: round_double_of_int_pos)
  next
    case 2 then show ?thesis by (simp add: round_double_def)
  next
    case 3
    with assms have "round_double (of_int (- n)) = of_int (- n)"
      by (intro round_double_of_int_pos) simp_all
    then show ?thesis using round_double_minus [of "of_int n"] by simp
  qed
qed

lemma float_sub_exact_int:
  "a - b = of_int n \<Longrightarrow> \<bar>n\<bar> < 2 ^ 53 \<Longrightarrow> float_sub a b = a - b"
  by (simp add: float_sub_def round_double_of_int)

text \<open>Differences the examples below use; each is exact, as it is for the floats.\<close>

lemma float_sub_examples:
  "float_sub 15 10 = 5" "float_sub 20 15 = 5" "float_sub 12 10 = 2" "float_sub 17 12 = 5"
  "float_sub 8 5 = 3" "float_sub 8 20 = - 12"
  by code_simp+

text \<open>
  A difference that rounds: the floats written \<open>0.2\<close> and \<open>19.8\<close> denote
  \<open>3602879701896397 / 2 ^ 54\<close> and \<open>5573204538870989 / 2 ^ 48\<close>, and both \<open>10 - 0.2\<close> and
  \<open>19.8 - 10\<close> give the float written \<open>9.8\<close>, although the exact differences are not equal.
\<close>

lemma float_sub_rounds:
  "float_sub 10 (3602879701896397 / 18014398509481984) = 2758454771764429 / 281474976710656"
  "float_sub (5573204538870989 / 281474976710656) 10 = 2758454771764429 / 281474976710656"
  "(10::rat) - 3602879701896397 / 18014398509481984 \<noteq> 5573204538870989 / 281474976710656 - 10"
  by code_simp+

section \<open>Segment fusion: results\<close>

lemma combine_loop_field:
  assumes "\<And>i s. g (fuse_one i s turns) = h s"
  shows "map g (fst (combine_loop ids n segs turns)) = map h segs"
proof (induction segs arbitrary: n)
  case Nil
  show ?case by simp
next
  case (Cons s segs)
  from Cons.IH [of "Suc n"] show ?case
    by (cases "combine_loop ids (Suc n) segs turns") (simp add: assms)
qed

lemma combine_field:
  assumes "\<And>i s. g (fuse_one i s turns) = h s"
  shows "map g (combine_transcription_with_speakers ids n segs turns) = map h segs"
  unfolding combine_transcription_with_speakers_def
  using assms by (rule combine_loop_field)

lemma combine_length:
  "length (combine_transcription_with_speakers ids n segs turns) = length segs"
proof -
  have "map (\<lambda>f. ()) (combine_transcription_with_speakers ids n segs turns) =
        map (\<lambda>s. ()) segs"
    by (rule combine_field) simp
  then have "length (map (\<lambda>f. ()) (combine_transcription_with_speakers ids n segs turns)) =
             length (map (\<lambda>s. ()) segs)"
    by simp
  then show ?thesis by simp
qed

lemma combine_speakers:
  "map fs_speaker (combine_transcription_with_speakers ids n segs turns) =
     map (\<lambda>s. find_best_speaker s turns) segs"
  by (rule combine_field) (simp add: fuse_one_def)

lemma speaker_loop_stable:
  "\<forall>d\<in>set turns. overlap seg d \<le> m \<Longrightarrow> speaker_loop seg turns (b, m) = (b, m)"
  by (induction turns) auto


lemma overlap_pos_iff:
  "0 < overlap seg d \<longleftrightarrow>
     max (seg_start seg) (turn_start d) < min (seg_end seg) (turn_end d)"
  by (simp add: overlap_def Let_def float_sub_pos_iff less_max_iff_disj)

text \<open>
  C1. For all transcribed segments and all diarization turns, the fusion returns one fused
  segment per transcribed segment, in the input order: the list of texts, of start times and
  of end times of the output are those of the input, and the confidences are those of the
  input with 0 where the key is absent.
\<close>

theorem fuse_preserves_segments:
  "length (combine_transcription_with_speakers ids n segs turns) = length segs \<and>
   map fs_text (combine_transcription_with_speakers ids n segs turns) = map seg_text segs \<and>
   map fs_start_time (combine_transcription_with_speakers ids n segs turns) =
     map seg_start segs \<and>
   map fs_end_time (combine_transcription_with_speakers ids n segs turns) =
     map seg_end segs \<and>
   map fs_confidence (combine_transcription_with_speakers ids n segs turns) =
     map (\<lambda>s. case seg_confidence s of None \<Rightarrow> 0 | Some c \<Rightarrow> c) segs"
proof -
  have "map fs_text (combine_transcription_with_speakers ids n segs turns) =
        map seg_text segs"
    by (rule combine_field) (simp add: fuse_one_def)
  moreover have "map fs_start_time (combine_transcription_with_speakers ids n segs turns) =
        map seg_start segs"
    by (rule combine_field) (simp add: fuse_one_def)
  moreover have "map fs_end_time (combine_transcription_with_speakers ids n segs turns) =
        map seg_end segs"
    by (rule combine_field) (simp add: fuse_one_def)
  moreover have "map fs_confidence (combine_transcription_with_speakers ids n segs turns) =
        map (\<lambda>s. case seg_confidence s of None \<Rightarrow> 0 | Some c \<Rightarrow> c) segs"
    by (rule combine_field) (simp add: fuse_one_def)
  ultimately show ?thesis by (simp add: combine_length)
qed



text \<open>
  The tie after rounding: for the segment from \<open>0.2\<close> to \<open>19.8\<close> and the turns
  (0, 10, Judge), (10, 20, Advocate (Plaintiff)) the two computed overlaps are the same
  float, and the first turn keeps the segment.
\<close>

lemma fuse_tie_after_rounding:
  "find_best_speaker
     \<lparr>seg_start = 3602879701896397 / 18014398509481984,
      seg_end = 5573204538870989 / 281474976710656,
      seg_text = txt, seg_confidence = c\<rparr>
     [\<lparr>turn_start = 0, turn_end = 10, turn_speaker = ''Judge''\<rparr>,
      \<lparr>turn_start = 10, turn_end = 20, turn_speaker = ''Advocate (Plaintiff)''\<rparr>] = ''Judge''"
  by (simp add: find_best_speaker_def overlap_def float_sub_rounds)

text \<open>
  C5. With an empty list of diarization turns, every fused segment has the speaker
  \<open>Unknown\<close>.
\<close>

theorem fuse_no_turns_unknown:
  "map fs_speaker (combine_transcription_with_speakers ids n segs []) =
     replicate (length segs) ''Unknown''"
proof -
  have "map fs_speaker (combine_transcription_with_speakers ids n segs []) =
        map (\<lambda>s. ''Unknown'') segs"
    by (rule combine_field) (simp add: fuse_one_def find_best_speaker_def)
  then show ?thesis by (simp add: map_replicate_const)
qed

text \<open>
  C10. The fused speaker of a transcribed segment differs from \<open>Unknown\<close> only if some
  turn overlaps the segment on an interval of positive length. If no turn does (each turn is
  disjoint from the segment or touches it in one point), the speaker is \<open>Unknown\<close>.
\<close>

theorem fuse_speaker_needs_positive_overlap:
  "(i < length segs \<and>
    fs_speaker (combine_transcription_with_speakers ids n segs turns ! i) \<noteq> ''Unknown''
      \<longrightarrow> (\<exists>d\<in>set turns. max (seg_start (segs ! i)) (turn_start d)
                               < min (seg_end (segs ! i)) (turn_end d))) \<and>
   ((\<forall>d\<in>set turns.
        min (seg_end seg) (turn_end d) - max (seg_start seg) (turn_start d) \<le> 0)
      \<longrightarrow> find_best_speaker seg turns = ''Unknown'' \<and>
          fs_speaker (fuse_one new_id seg turns) = ''Unknown'')"
proof (intro conjI impI)
  assume "\<forall>d\<in>set turns.
            min (seg_end seg) (turn_end d) - max (seg_start seg) (turn_start d) \<le> 0"
  then have "\<forall>d\<in>set turns. overlap seg d \<le> 0"
    by (simp add: overlap_def Let_def float_sub_nonpos_iff)
  then show u: "find_best_speaker seg turns = ''Unknown''"
    by (simp add: find_best_speaker_def speaker_loop_stable)
  then show "fs_speaker (fuse_one new_id seg turns) = ''Unknown''"
    by (simp add: fuse_one_def)
next
  assume a: "i < length segs \<and>
    fs_speaker (combine_transcription_with_speakers ids n segs turns ! i) \<noteq> ''Unknown''"
  have "fs_speaker (combine_transcription_with_speakers ids n segs turns ! i) =
      map fs_speaker (combine_transcription_with_speakers ids n segs turns) ! i"
    using a by (simp add: combine_length)
  also have "\<dots> = find_best_speaker (segs ! i) turns"
    using a by (simp add: combine_speakers)
  finally have ne: "find_best_speaker (segs ! i) turns \<noteq> ''Unknown''"
    using a by simp
  have "\<not> (\<forall>d\<in>set turns. overlap (segs ! i) d \<le> 0)"
  proof
    assume "\<forall>d\<in>set turns. overlap (segs ! i) d \<le> 0"
    then have "find_best_speaker (segs ! i) turns = ''Unknown''"
      by (simp add: find_best_speaker_def speaker_loop_stable)
    with ne show False by simp
  qed
  then obtain d where "d \<in> set turns" "0 < overlap (segs ! i) d"
    by (auto simp: not_le)
  then show "\<exists>d\<in>set turns. max (seg_start (segs ! i)) (turn_start d)
                               < min (seg_end (segs ! i)) (turn_end d)"
    by (auto simp: overlap_pos_iff)
qed

theorem fuse_speaker_needs_positive_overlap_witness:
  "(0::nat) < length [\<lparr>seg_start = 5, seg_end = 8, seg_text = ''Be seated.'', seg_confidence = None\<rparr>,
                   \<lparr>seg_start = 10, seg_end = 20, seg_text = ''Yes.'', seg_confidence = None\<rparr>] \<and>
   fs_speaker (combine_transcription_with_speakers (\<lambda>k. ''id'') 0
      [\<lparr>seg_start = 5, seg_end = 8, seg_text = ''Be seated.'', seg_confidence = None\<rparr>,
       \<lparr>seg_start = 10, seg_end = 20, seg_text = ''Yes.'', seg_confidence = None\<rparr>]
      [\<lparr>turn_start = 0, turn_end = 10, turn_speaker = ''Judge''\<rparr>,
       \<lparr>turn_start = 20, turn_end = 30, turn_speaker = ''Clerk''\<rparr>] ! 0) \<noteq> ''Unknown'' \<and>
   (\<exists>d\<in>set [\<lparr>turn_start = 0, turn_end = 10, turn_speaker = ''Judge''\<rparr>,
             \<lparr>turn_start = 20, turn_end = 30, turn_speaker = ''Clerk''\<rparr>].
      max (5::rat) (turn_start d) < min 8 (turn_end d)) \<and>
   min (20::rat) 10 - max 10 0 \<le> 0 \<and>
   min (20::rat) 30 - max 10 20 \<le> 0 \<and>
   find_best_speaker \<lparr>seg_start = 10, seg_end = 20, seg_text = ''Yes.'', seg_confidence = None\<rparr>
      [\<lparr>turn_start = 0, turn_end = 10, turn_speaker = ''Judge''\<rparr>,
       \<lparr>turn_start = 20, turn_end = 30, turn_speaker = ''Clerk''\<rparr>] = ''Unknown''"
  using fuse_speaker_needs_positive_overlap
    [where i = 0 and ids = "\<lambda>k. ''id''" and n = 0 and new_id = "''id''"
       and segs = "[\<lparr>seg_start = 5, seg_end = 8, seg_text = ''Be seated.'', seg_confidence = None\<rparr>,
                    \<lparr>seg_start = 10, seg_end = 20, seg_text = ''Yes.'', seg_confidence = None\<rparr>]"
       and turns = "[\<lparr>turn_start = 0, turn_end = 10, turn_speaker = ''Judge''\<rparr>,
                     \<lparr>turn_start = 20, turn_end = 30, turn_speaker = ''Clerk''\<rparr>]"
       and seg = "\<lparr>seg_start = 10, seg_end = 20, seg_text = ''Yes.'', seg_confidence = None\<rparr>"]
  by (simp add: combine_transcription_with_speakers_def fuse_one_def find_best_speaker_def
        overlap_def float_sub_examples float_sub_same)

section \<open>Speaker roles: results\<close>

lemma py_split_nonempty: "py_split sep s \<noteq> []"
  by (induction s) (auto split: list.splits)

lemma py_split_no_sep: "sep \<notin> set s \<Longrightarrow> py_split sep s = [s]"
  by (induction s) auto

lemma length_py_split:
  "length (py_split sep s) = Suc (length (filter (\<lambda>c. c = sep) s))"
  by (induction s) (auto split: list.splits)

lemma last_py_split_Cons:
  assumes "sep \<in> set cs"
  shows "last (py_split sep (c # cs)) = last (py_split sep cs)"
proof -
  from assms have "filter (\<lambda>c. c = sep) cs \<noteq> []"
    by (simp add: filter_empty_conv)
  then have "2 \<le> length (py_split sep cs)"
    by (cases "filter (\<lambda>c. c = sep) cs") (simp_all add: length_py_split)
  then obtain w w' ws where "py_split sep cs = w # w' # ws"
    by (cases "py_split sep cs" rule: list.exhaust; cases "tl (py_split sep cs)") auto
  then show ?thesis by simp
qed

lemma last_py_split_append:
  "sep \<notin> set sid \<Longrightarrow> last (py_split sep (pre @ sep # sid)) = sid"
proof (induction pre)
  case Nil
  then show ?case by (simp add: py_split_no_sep)
next
  case (Cons c pre)
  have "last (py_split sep (c # (pre @ sep # sid))) = last (py_split sep (pre @ sep # sid))"
    by (rule last_py_split_Cons) simp
  with Cons show ?case by simp
qed

text \<open>
  C3, as stated, fails: the identifier \<open>SPEAKER_10\<close> ends in the character 0 and is
  mapped to \<open>Speaker 10\<close>, not to \<open>Judge\<close>; the label is built from the last component,
  not from the whole identifier.
\<close>

theorem map_speaker_ending_in_0_counterexample:
  "last ''SPEAKER_10'' = CHR ''0'' \<and>
   map_speaker_to_role ''SPEAKER_10'' = ''Speaker 10'' \<and>
   map_speaker_to_role ''SPEAKER_10'' \<noteq> ''Judge'' \<and>
   map_speaker_to_role ''SPEAKER_10'' \<noteq> ''Speaker SPEAKER_10''"
  by (simp add: map_speaker_to_role_def)

text \<open>
  C3, amended. Let \<open>sid\<close> be the part of the identifier after its last underscore (the whole
  identifier when it has none). The mapping gives \<open>Judge\<close> when \<open>sid\<close> is exactly \<open>0\<close>,
  \<open>Advocate (Plaintiff)\<close> when it is exactly \<open>1\<close>, \<open>Advocate (Defense)\<close> when it is exactly
  \<open>2\<close>, and otherwise \<open>Speaker\<close> followed by a space and \<open>sid\<close>.
\<close>

theorem map_speaker_last_component:
  "CHR ''_'' \<notin> set sid \<and> (speaker = sid \<or> speaker = pre @ CHR ''_'' # sid) \<longrightarrow>
     (sid = ''0'' \<longrightarrow> map_speaker_to_role speaker = ''Judge'') \<and>
     (sid = ''1'' \<longrightarrow> map_speaker_to_role speaker = ''Advocate (Plaintiff)'') \<and>
     (sid = ''2'' \<longrightarrow> map_speaker_to_role speaker = ''Advocate (Defense)'') \<and>
     (sid \<noteq> ''0'' \<and> sid \<noteq> ''1'' \<and> sid \<noteq> ''2'' \<longrightarrow>
        map_speaker_to_role speaker = ''Speaker '' @ sid)"
proof
  assume a: "CHR ''_'' \<notin> set sid \<and> (speaker = sid \<or> speaker = pre @ CHR ''_'' # sid)"
  then have "last (py_split (CHR ''_'') speaker) = sid"
    by (auto simp: py_split_no_sep last_py_split_append)
  then show "(sid = ''0'' \<longrightarrow> map_speaker_to_role speaker = ''Judge'') \<and>
     (sid = ''1'' \<longrightarrow> map_speaker_to_role speaker = ''Advocate (Plaintiff)'') \<and>
     (sid = ''2'' \<longrightarrow> map_speaker_to_role speaker = ''Advocate (Defense)'') \<and>
     (sid \<noteq> ''0'' \<and> sid \<noteq> ''1'' \<and> sid \<noteq> ''2'' \<longrightarrow>
        map_speaker_to_role speaker = ''Speaker '' @ sid)"
    by (simp add: map_speaker_to_role_def)
qed

theorem map_speaker_last_component_witness:
  "map_speaker_to_role ''SPEAKER_0'' = ''Judge'' \<and>
   map_speaker_to_role ''SPEAKER_1'' = ''Advocate (Plaintiff)'' \<and>
   map_speaker_to_role ''SPEAKER_2'' = ''Advocate (Defense)'' \<and>
   map_speaker_to_role ''SPEAKER_03'' = ''Speaker 03''"
  using map_speaker_last_component [of "''0''" "''SPEAKER_0''" "''SPEAKER''"]
        map_speaker_last_component [of "''1''" "''SPEAKER_1''" "''SPEAKER''"]
        map_speaker_last_component [of "''2''" "''SPEAKER_2''" "''SPEAKER''"]
        map_speaker_last_component [of "''03''" "''SPEAKER_03''" "''SPEAKER''"]
  by simp

section \<open>Fallback diarization: results\<close>

lemma py_int_nonneg: "0 \<le> x \<Longrightarrow> py_int x = \<lfloor>x\<rfloor>"
  by (simp add: py_int_def)

lemma mock_window_inside:
  assumes "i < nat (py_int (duration / segment_length))"
  shows "(of_nat i + 1) * segment_length \<le> duration"
proof -
  have pos: "0 < py_int (duration / segment_length)"
    using assms by simp
  then have d0: "0 \<le> duration / segment_length"
    by (simp add: py_int_def split: if_splits)
  then have "py_int (duration / segment_length) = \<lfloor>duration / segment_length\<rfloor>"
    by (simp add: py_int_def)
  with assms have "int i + 1 \<le> \<lfloor>duration / segment_length\<rfloor>"
    by simp
  then have "of_int (int i + 1) \<le> duration / segment_length"
    by (simp only: le_floor_iff)
  then show ?thesis
    by (simp add: segment_length_def)
qed

lemma mock_segment_eq:
  assumes "i < nat (py_int (duration / segment_length))"
  shows "mock_segment duration i =
     \<lparr>turn_start = 10 * of_nat i, turn_end = 10 * of_nat i + 10,
      turn_speaker = [''Judge'', ''Advocate (Plaintiff)'', ''Advocate (Defense)'', ''Witness''] ! (i mod 4)\<rparr>"
  using mock_window_inside [OF assms]
  by (simp add: mock_segment_def speaker_roles_def segment_length_def min_def algebra_simps)

lemma mock_segments_windows:
  assumes "librosa_installed env" and "audio_duration env audio_file = Inr duration"
  shows "generate_mock_segments env audio_file =
     Inr (map (\<lambda>i. \<lparr>turn_start = 10 * of_nat i, turn_end = 10 * of_nat i + 10,
                 turn_speaker = [''Judge'', ''Advocate (Plaintiff)'', ''Advocate (Defense)'',
                                 ''Witness''] ! (i mod 4)\<rparr>)
            [0..<nat (py_int (duration / 10))])"
proof -
  have "map (mock_segment duration) [0..<nat (py_int (duration / segment_length))] =
        map (\<lambda>i. \<lparr>turn_start = 10 * of_nat i, turn_end = 10 * of_nat i + 10,
                 turn_speaker = [''Judge'', ''Advocate (Plaintiff)'', ''Advocate (Defense)'',
                                 ''Witness''] ! (i mod 4)\<rparr>)
            [0..<nat (py_int (duration / segment_length))]"
    by (rule map_cong [OF refl]) (simp add: mock_segment_eq)
  with assms show ?thesis
    by (simp add: generate_mock_segments_def Let_def segment_length_def)
qed

lemma mock_segments_95:
  assumes "librosa_installed env" and "audio_duration env audio_file = Inr 95"
  shows "\<exists>turns. generate_mock_segments env audio_file = Inr turns \<and> length turns = 9 \<and>
           turn_speaker (hd turns) = ''Judge''"
proof -
  have "\<lfloor>(95::rat) / 10\<rfloor> = 9"
    by (rule floor_unique) simp_all
  then have "nat (py_int (95 / 10)) = 9"
    by (simp add: py_int_def)
  then show ?thesis
    using mock_segments_windows [OF assms]
    by (simp add: hd_map upt_conv_Cons)
qed

lemma mock_segments_no_duration:
  assumes "librosa_installed env" and "audio_duration env audio_file = Inl e"
  shows "generate_mock_segments env audio_file =
     Inr [\<lparr>turn_start = 0, turn_end = 30, turn_speaker = ''Judge''\<rparr>,
          \<lparr>turn_start = 30, turn_end = 60, turn_speaker = ''Advocate (Plaintiff)''\<rparr>,
          \<lparr>turn_start = 60, turn_end = 90, turn_speaker = ''Advocate (Defense)''\<rparr>]"
  using assms by (simp add: generate_mock_segments_def minimal_segments_def)

text \<open>
  C4. With \<open>librosa\<close> importable the claim holds (\<open>mock_segments_windows\<close>,
  \<open>mock_segments_95\<close>, \<open>mock_segments_no_duration\<close>). The import itself stands outside
  the \<open>try\<close>: where the package is missing the duration cannot be determined, and the call
  leaves \<open>_generate_mock_segments\<close> and \<open>diarize\<close> as an \<open>ImportError\<close> instead of
  returning the three hard-coded turns.
\<close>

theorem generate_mock_segments_import_escapes:
  "generate_mock_segments
     \<lparr>librosa_installed = False, audio_duration = (\<lambda>f. Inl (Exception ''no backend'')),
      diarization_available = False, pipeline = (\<lambda>f. Inr [])\<rparr> ''hearing.wav''
   = Inl (ImportError ''No module named librosa'') \<and>
   diarize
     \<lparr>librosa_installed = False, audio_duration = (\<lambda>f. Inl (Exception ''no backend'')),
      diarization_available = False, pipeline = (\<lambda>f. Inr [])\<rparr> ''hearing.wav''
   = Inl (ImportError ''No module named librosa'')"
  by (simp add: generate_mock_segments_def diarize_def)

section \<open>Noise suppression: results\<close>

text \<open>
  C7. \<open>process\<close> always returns a path and never an exception. It returns the input path
  when the audio libraries are not available, and when any step of the filtering (load,
  spectral subtraction, temporary file, write) raises.
\<close>

theorem process_never_raises:
  "(\<exists>p. process libs audio_file = Inr p) \<and>
   (\<not> AUDIO_LIBS_AVAILABLE libs \<longrightarrow> process libs audio_file = Inr audio_file) \<and>
   (process_body libs audio_file = Inl e \<longrightarrow> process libs audio_file = Inr audio_file) \<and>
   (librosa_load libs audio_file = Inl e \<longrightarrow> process libs audio_file = Inr audio_file) \<and>
   (librosa_load libs audio_file = Inr a \<and> spectral_subtraction libs a = Inl e
      \<longrightarrow> process libs audio_file = Inr audio_file) \<and>
   (librosa_load libs audio_file = Inr a \<and> spectral_subtraction libs a = Inr a' \<and>
    named_temporary_file libs = Inl e \<longrightarrow> process libs audio_file = Inr audio_file) \<and>
   (librosa_load libs audio_file = Inr a \<and> spectral_subtraction libs a = Inr a' \<and>
    named_temporary_file libs = Inr p \<and> sf_write libs p a' = Inl e
      \<longrightarrow> process libs audio_file = Inr audio_file)"
  by (simp add: process_def process_body_def split: sum.splits)

theorem process_never_raises_witness:
  "\<not> AUDIO_LIBS_AVAILABLE (example_libs\<lparr>AUDIO_LIBS_AVAILABLE := False\<rparr>) \<and>
   process (example_libs\<lparr>AUDIO_LIBS_AVAILABLE := False\<rparr>) ''uploads/a.wav'' = Inr ''uploads/a.wav'' \<and>
   process_body example_libs ''uploads/a.wav'' = Inl (Exception ''disk full'') \<and>
   sf_write example_libs ''/tmp/tmpab12.wav'' 16000 = Inl (Exception ''disk full'') \<and>
   process example_libs ''uploads/a.wav'' = Inr ''uploads/a.wav'' \<and>
   process (example_libs\<lparr>sf_write := (\<lambda>p a. Inr ())\<rparr>) ''uploads/a.wav'' = Inr ''/tmp/tmpab12.wav''"
  using process_never_raises [where libs = "example_libs\<lparr>AUDIO_LIBS_AVAILABLE := False\<rparr>"
              and audio_file = "''uploads/a.wav''"]
        process_never_raises [where libs = example_libs and audio_file = "''uploads/a.wav''"
              and e = "Exception ''disk full''" and a = 16000 and a' = 16000
              and p = "''/tmp/tmpab12.wav''"]
  by (simp add: example_libs_def process_def process_body_def)

section \<open>Storage: results\<close>

lemma store_transcript_without_case_details:
  "tr_case_details t = None \<Longrightarrow> store_transcript env db tid t = (False, db)"
  by (simp add: store_transcript_def Let_def split: option.splits)

lemma store_then_get:
  assumes "db_error env = None" and "tr_case_details t = Some cd"
    and "transcripts db tid = None" and "json_loads env (json_dumps env t) = Inr t"
  shows "fst (store_transcript env db tid t) \<and>
         get_transcript env (snd (store_transcript env db tid t)) tid = Some t"
  using assms by (simp add: store_transcript_def get_transcript_def Let_def domIff)

text \<open>
  C8. \<open>get_transcript\<close> returns \<open>None\<close> for an identifier that is not stored, and returns
  the same \<open>None\<close> for a stored row whose recomputed hash differs from the stored hash.
  Whatever it returns was parsed from a row whose hash matches.
\<close>

theorem get_transcript_mismatch_is_absent:
  "(transcripts db transcript_id = None \<longrightarrow> get_transcript env db transcript_id = None) \<and>
   (transcripts db transcript_id = Some row \<and>
    sha256_hexdigest env (row_data row) \<noteq> row_hash row
      \<longrightarrow> get_transcript env db transcript_id = None) \<and>
   (get_transcript env db transcript_id = Some t
      \<longrightarrow> (\<exists>row. transcripts db transcript_id = Some row \<and>
                  sha256_hexdigest env (row_data row) = row_hash row \<and>
                  json_loads env (row_data row) = Inr t))"
  by (auto simp: get_transcript_def Let_def split: option.splits sum.splits if_splits)

theorem get_transcript_mismatch_is_absent_witness:
  "transcripts example_db ''t9'' = None \<and>
   get_transcript example_env example_db ''t9'' = None \<and>
   sha256_hexdigest example_env (row_data (the (transcripts example_db ''t2''))) \<noteq>
     row_hash (the (transcripts example_db ''t2'')) \<and>
   get_transcript example_env example_db ''t2'' = None \<and>
   get_transcript example_env example_db ''t1'' = Some example_transcript"
  using get_transcript_mismatch_is_absent [where db = example_db and env = example_env and transcript_id = "''t9''"]
        get_transcript_mismatch_is_absent [where db = example_db and env = example_env and transcript_id = "''t2''"
              and row = "the (transcripts example_db ''t2'')"]
        get_transcript_mismatch_is_absent [where db = example_db and env = example_env and transcript_id = "''t1''"
              and t = example_transcript]
  by (simp add: example_db_def example_env_def example_digest_def example_transcript_def
        get_transcript_def)

lemma update_loop_flag:
  "snd (update_loop sid nt segs) \<longleftrightarrow> sid \<in> fs_id ` set segs"
  by (induction segs) (simp_all add: case_prod_unfold)

lemma update_loop_first:
  assumes "sid \<in> fs_id ` set segs"
  shows "\<exists>k<length segs. fs_id (segs ! k) = sid \<and> (\<forall>j<k. fs_id (segs ! j) \<noteq> sid) \<and>
           fst (update_loop sid nt segs) = segs[k := (segs ! k)\<lparr>fs_text := nt\<rparr>]"
  using assms
proof (induction segs)
  case Nil
  then show ?case by simp
next
  case (Cons s segs)
  show ?case
  proof (cases "fs_id s = sid")
    case True
    then have "0 < length (s # segs) \<and> fs_id ((s # segs) ! 0) = sid \<and>
        (\<forall>j<0. fs_id ((s # segs) ! j) \<noteq> sid) \<and>
        fst (update_loop sid nt (s # segs)) = (s # segs)[0 := ((s # segs) ! 0)\<lparr>fs_text := nt\<rparr>]"
      by simp
    then show ?thesis by blast
  next
    case False
    with Cons.prems have "sid \<in> fs_id ` set segs" by auto
    from Cons.IH [OF this] obtain k where k: "k < length segs" "fs_id (segs ! k) = sid"
      "\<forall>j<k. fs_id (segs ! j) \<noteq> sid"
      "fst (update_loop sid nt segs) = segs[k := (segs ! k)\<lparr>fs_text := nt\<rparr>]"
      by blast
    have "\<forall>j<Suc k. fs_id ((s # segs) ! j) \<noteq> sid"
      using False k(3) by (auto simp: nth_Cons split: nat.splits)
    moreover have "fst (update_loop sid nt (s # segs)) =
        (s # segs)[Suc k := ((s # segs) ! Suc k)\<lparr>fs_text := nt\<rparr>]"
      using False k(4) by (simp add: case_prod_unfold)
    ultimately have "Suc k < length (s # segs) \<and> fs_id ((s # segs) ! Suc k) = sid \<and>
        (\<forall>j<Suc k. fs_id ((s # segs) ! j) \<noteq> sid) \<and>
        fst (update_loop sid nt (s # segs)) =
          (s # segs)[Suc k := ((s # segs) ! Suc k)\<lparr>fs_text := nt\<rparr>]"
      using k(1,2) by simp
    then show ?thesis by blast
  qed
qed

lemma get_transcript_Some_db_ok:
  "get_transcript env db tid = Some t \<Longrightarrow> db_error env = None \<and> transcripts db tid \<noteq> None"
  by (auto simp: get_transcript_def split: option.splits)

lemma update_not_found_transcript:
  "get_transcript env db tid = None \<Longrightarrow>
     update_transcript_segment env db tid sid nt user = (False, db)"
  by (simp add: update_transcript_segment_def)

lemma update_not_found_segment:
  "get_transcript env db tid = Some t \<Longrightarrow> sid \<notin> fs_id ` set (tr_segments t) \<Longrightarrow>
     update_transcript_segment env db tid sid nt user = (False, db)"
  using update_loop_flag [of sid nt "tr_segments t"]
  by (simp add: update_transcript_segment_def case_prod_unfold)

lemma update_found:
  assumes "get_transcript env db tid = Some t" and "sid \<in> fs_id ` set (tr_segments t)"
  shows "update_transcript_segment env db tid sid nt user =
     (True,
      db\<lparr>transcripts := (transcripts db)(tid :=
            map_option (\<lambda>row. row\<lparr>row_data :=
                 json_dumps env (t\<lparr>tr_segments := fst (update_loop sid nt (tr_segments t))\<rparr>),
               row_updated_at := now env,
               row_hash := sha256_hexdigest env
                 (json_dumps env (t\<lparr>tr_segments := fst (update_loop sid nt (tr_segments t))\<rparr>))\<rparr>)
              (transcripts db tid)),
         audit_log := audit_log db @
           [\<lparr>log_id = new_log_id env, log_transcript_id = tid,
             log_action = ''update_segment'', log_user = user,
             log_timestamp = now env,
             log_details = ''Updated segment '' @ sid\<rparr>]\<rparr>)"
  using assms update_loop_flag [of sid nt "tr_segments t"] get_transcript_Some_db_ok [OF assms(1)]
  by (simp add: update_transcript_segment_def Let_def case_prod_unfold)

lemma update_failure_unchanged:
  assumes "\<not> fst (update_transcript_segment env db tid sid nt user)"
  shows "snd (update_transcript_segment env db tid sid nt user) = db"
proof (cases "get_transcript env db tid")
  case None
  then show ?thesis by (simp add: update_not_found_transcript)
next
  case (Some t)
  show ?thesis
  proof (cases "sid \<in> fs_id ` set (tr_segments t)")
    case True
    from update_found [OF Some True, of nt user] assms show ?thesis by simp
  next
    case False
    from update_not_found_segment [OF Some False, of nt user] show ?thesis by simp
  qed
qed

text \<open>
  C9. \<open>update_transcript_segment\<close> returns \<open>False\<close> and leaves the store as it was when
  the transcript cannot be read or no segment has the given identifier; whenever it returns
  \<open>False\<close> the store is unchanged. Otherwise it returns \<open>True\<close>, and the row of this
  transcript holds the serialised transcript in which the first segment with this identifier
  has the new text, every other field of that segment, every other segment and every other
  field of the transcript being as before; the rows of other transcripts are unchanged.
  When the serialisation reads back, \<open>get_transcript\<close> then returns that transcript.
\<close>

theorem update_segment_changes_only_text:
  "(transcripts db tid = None \<longrightarrow>
      update_transcript_segment env db tid sid nt user = (False, db)) \<and>
   (get_transcript env db tid = None \<longrightarrow>
      update_transcript_segment env db tid sid nt user = (False, db)) \<and>
   (get_transcript env db tid = Some t \<and> sid \<notin> fs_id ` set (tr_segments t) \<longrightarrow>
      update_transcript_segment env db tid sid nt user = (False, db)) \<and>
   (\<not> fst (update_transcript_segment env db tid sid nt user) \<longrightarrow>
      snd (update_transcript_segment env db tid sid nt user) = db) \<and>
   (get_transcript env db tid = Some t \<and> sid \<in> fs_id ` set (tr_segments t) \<longrightarrow>
      (\<exists>k<length (tr_segments t).
          fs_id (tr_segments t ! k) = sid \<and> (\<forall>j<k. fs_id (tr_segments t ! j) \<noteq> sid) \<and>
          fst (update_transcript_segment env db tid sid nt user) \<and>
          map_option row_data
            (transcripts (snd (update_transcript_segment env db tid sid nt user)) tid) =
            Some (json_dumps env
              (t\<lparr>tr_segments := (tr_segments t)[k := (tr_segments t ! k)\<lparr>fs_text := nt\<rparr>]\<rparr>)) \<and>
          (\<forall>tid'. tid' \<noteq> tid \<longrightarrow>
             transcripts (snd (update_transcript_segment env db tid sid nt user)) tid' =
             transcripts db tid') \<and>
          (json_loads env (json_dumps env
              (t\<lparr>tr_segments := (tr_segments t)[k := (tr_segments t ! k)\<lparr>fs_text := nt\<rparr>]\<rparr>))
             = Inr (t\<lparr>tr_segments := (tr_segments t)[k := (tr_segments t ! k)\<lparr>fs_text := nt\<rparr>]\<rparr>)
           \<longrightarrow> get_transcript env (snd (update_transcript_segment env db tid sid nt user)) tid =
               Some (t\<lparr>tr_segments :=
                       (tr_segments t)[k := (tr_segments t ! k)\<lparr>fs_text := nt\<rparr>]\<rparr>))))"
proof (intro conjI impI)
  assume "transcripts db tid = None"
  then have "get_transcript env db tid = None"
    by (simp add: get_transcript_def split: option.splits)
  then show "update_transcript_segment env db tid sid nt user = (False, db)"
    by (rule update_not_found_transcript)
next
  assume "get_transcript env db tid = None"
  then show "update_transcript_segment env db tid sid nt user = (False, db)"
    by (rule update_not_found_transcript)
next
  assume "get_transcript env db tid = Some t \<and> sid \<notin> fs_id ` set (tr_segments t)"
  then show "update_transcript_segment env db tid sid nt user = (False, db)"
    by (simp add: update_not_found_segment)
next
  assume "\<not> fst (update_transcript_segment env db tid sid nt user)"
  then show "snd (update_transcript_segment env db tid sid nt user) = db"
    by (rule update_failure_unchanged)
next
  assume a: "get_transcript env db tid = Some t \<and> sid \<in> fs_id ` set (tr_segments t)"
  then have g: "get_transcript env db tid = Some t" and m: "sid \<in> fs_id ` set (tr_segments t)"
    by simp_all
  from update_loop_first [OF m, of nt] obtain k where k: "k < length (tr_segments t)"
      "fs_id (tr_segments t ! k) = sid" "\<forall>j<k. fs_id (tr_segments t ! j) \<noteq> sid"
      "fst (update_loop sid nt (tr_segments t)) =
         (tr_segments t)[k := (tr_segments t ! k)\<lparr>fs_text := nt\<rparr>]"
    by blast
  let ?t' = "t\<lparr>tr_segments := (tr_segments t)[k := (tr_segments t ! k)\<lparr>fs_text := nt\<rparr>]\<rparr>"
  let ?r = "update_transcript_segment env db tid sid nt user"
  note u = update_found [OF g m, of nt user, unfolded k(4)]
  from get_transcript_Some_db_ok [OF g] obtain row where
    row: "transcripts db tid = Some row" and ok: "db_error env = None"
    by auto
  have 1: "fst ?r" by (simp add: u)
  have 2: "map_option row_data (transcripts (snd ?r) tid) = Some (json_dumps env ?t')"
    by (simp add: u row)
  have 3: "\<forall>tid'. tid' \<noteq> tid \<longrightarrow> transcripts (snd ?r) tid' = transcripts db tid'"
    by (simp add: u)
  have 4: "json_loads env (json_dumps env ?t') = Inr ?t' \<longrightarrow>
             get_transcript env (snd ?r) tid = Some ?t'"
    by (simp add: u row ok get_transcript_def Let_def)
  from k(1,2,3) 1 2 3 4
  show "\<exists>k<length (tr_segments t).
          fs_id (tr_segments t ! k) = sid \<and> (\<forall>j<k. fs_id (tr_segments t ! j) \<noteq> sid) \<and>
          fst ?r \<and>
          map_option row_data (transcripts (snd ?r) tid) =
            Some (json_dumps env
              (t\<lparr>tr_segments := (tr_segments t)[k := (tr_segments t ! k)\<lparr>fs_text := nt\<rparr>]\<rparr>)) \<and>
          (\<forall>tid'. tid' \<noteq> tid \<longrightarrow> transcripts (snd ?r) tid' = transcripts db tid') \<and>
          (json_loads env (json_dumps env
              (t\<lparr>tr_segments := (tr_segments t)[k := (tr_segments t ! k)\<lparr>fs_text := nt\<rparr>]\<rparr>))
             = Inr (t\<lparr>tr_segments := (tr_segments t)[k := (tr_segments t ! k)\<lparr>fs_text := nt\<rparr>]\<rparr>)
           \<longrightarrow> get_transcript env (snd ?r) tid =
               Some (t\<lparr>tr_segments :=
                       (tr_segments t)[k := (tr_segments t ! k)\<lparr>fs_text := nt\<rparr>]\<rparr>))"
    by blast
qed

theorem update_segment_changes_only_text_witness:
  "transcripts example_db ''t9'' = None \<and>
   get_transcript example_env example_db ''t9'' = None \<and>
   update_transcript_segment example_env example_db ''t9'' ''s2'' ''I saw it.'' ''judge''
     = (False, example_db) \<and>
   get_transcript example_env example_db ''t1'' = Some example_transcript \<and>
   ''s9'' \<notin> fs_id ` set (tr_segments example_transcript) \<and>
   update_transcript_segment example_env example_db ''t1'' ''s9'' ''I saw it.'' ''judge''
     = (False, example_db) \<and>
   ''s2'' \<in> fs_id ` set (tr_segments example_transcript) \<and>
   fst (update_transcript_segment example_env example_db ''t1'' ''s2'' ''I saw it.'' ''judge'') \<and>
   get_transcript example_env
     (snd (update_transcript_segment example_env example_db ''t1'' ''s2'' ''I saw it.'' ''judge''))
     ''t1'' =
     Some (example_transcript\<lparr>tr_segments :=
        [\<lparr>fs_id = ''s1'', fs_speaker = ''Judge'', fs_text = ''Order.'',
          fs_start_time = 0, fs_end_time = 4, fs_confidence = 0\<rparr>,
         \<lparr>fs_id = ''s2'', fs_speaker = ''Witness'', fs_text = ''I saw it.'',
          fs_start_time = 4, fs_end_time = 9, fs_confidence = 0\<rparr>]\<rparr>)"
proof -
  have g1: "get_transcript example_env example_db ''t1'' = Some example_transcript"
    by (simp add: example_db_def example_env_def example_digest_def get_transcript_def)
  have g9: "get_transcript example_env example_db ''t9'' = None"
    by (simp add: example_db_def example_env_def get_transcript_def)
  have s9: "''s9'' \<notin> fs_id ` set (tr_segments example_transcript)"
    by (simp add: example_transcript_def)
  have s2: "''s2'' \<in> fs_id ` set (tr_segments example_transcript)"
    by (simp add: example_transcript_def)
  have rt: "json_loads example_env (json_dumps example_env x) = Inr x" for x
    by (simp add: example_env_def)
  from update_segment_changes_only_text [where env = example_env and db = example_db and tid = "''t9''"
             and sid = "''s2''" and nt = "''I saw it.''" and user = "''judge''"] g9
  have a: "update_transcript_segment example_env example_db ''t9'' ''s2'' ''I saw it.'' ''judge''
     = (False, example_db)"
    by simp
  from update_segment_changes_only_text [where env = example_env and db = example_db and tid = "''t1''"
             and sid = "''s9''" and nt = "''I saw it.''" and user = "''judge''"
             and t = example_transcript] g1 s9
  have b: "update_transcript_segment example_env example_db ''t1'' ''s9'' ''I saw it.'' ''judge''
     = (False, example_db)"
    by simp
  from update_segment_changes_only_text [where env = example_env and db = example_db and tid = "''t1''"
             and sid = "''s2''" and nt = "''I saw it.''" and user = "''judge''"
             and t = example_transcript] g1 s2
  obtain k where k: "k < length (tr_segments example_transcript)"
     "fs_id (tr_segments example_transcript ! k) = ''s2''"
     "\<forall>j<k. fs_id (tr_segments example_transcript ! j) \<noteq> ''s2''"
     "fst (update_transcript_segment example_env example_db ''t1'' ''s2'' ''I saw it.'' ''judge'')"
     "get_transcript example_env
        (snd (update_transcript_segment example_env example_db ''t1'' ''s2'' ''I saw it.'' ''judge''))
        ''t1'' =
      Some (example_transcript\<lparr>tr_segments := (tr_segments example_transcript)
              [k := (tr_segments example_transcript ! k)\<lparr>fs_text := ''I saw it.''\<rparr>]\<rparr>)"
    using rt by auto
  have "k = 1"
  proof -
    from k(1) have "k = 0 \<or> k = 1" by (auto simp: example_transcript_def)
    with k(2) show ?thesis by (auto simp: example_transcript_def)
  qed
  with k(5) have c: "get_transcript example_env
     (snd (update_transcript_segment example_env example_db ''t1'' ''s2'' ''I saw it.'' ''judge''))
     ''t1'' =
     Some (example_transcript\<lparr>tr_segments :=
        [\<lparr>fs_id = ''s1'', fs_speaker = ''Judge'', fs_text = ''Order.'',
          fs_start_time = 0, fs_end_time = 4, fs_confidence = 0\<rparr>,
         \<lparr>fs_id = ''s2'', fs_speaker = ''Witness'', fs_text = ''I saw it.'',
          fs_start_time = 4, fs_end_time = 9, fs_confidence = 0\<rparr>]\<rparr>)"
    by (simp add: example_transcript_def)
  have t9: "transcripts example_db ''t9'' = None"
    by (simp add: example_db_def)
  from t9 g9 a g1 s9 b s2 k(4) c show ?thesis by simp
qed

section \<open>Pipeline: results\<close>

lemma process_audio_recognition_fails:
  "model_transcribe svc (noise_stage svc f) = Inl e \<Longrightarrow>
     process_audio svc st f cid =
       (Inl (Exception (''Speech recognition failed: '' @ str_exn e)), st)"
  by (simp add: process_audio_def Let_def)

lemma process_audio_returns:
  "model_transcribe svc (noise_stage svc f) = Inr segs \<Longrightarrow>
   assemble_transcript svc f cid segs (diarization_stage svc (noise_stage svc f)) = Inr t \<Longrightarrow>
     fst (process_audio svc st f cid) = Inr t"
  by (simp add: process_audio_def Let_def)

lemma process_audio_model_name_raises:
  "model_transcribe svc (noise_stage svc f) = Inr segs \<Longrightarrow> model_name svc = Inl e \<Longrightarrow>
     process_audio svc st f cid = (Inl e, st)"
  by (simp add: process_audio_def assemble_transcript_def Let_def)

lemma noise_stage_absorbs:
  "noise_suppression_process svc f = Inl e \<Longrightarrow> noise_stage svc f = f"
  by (simp add: noise_stage_def)

lemma diarization_stage_absorbs:
  "diarization_service_diarize svc f = Inl e \<Longrightarrow> diarization_stage svc f = []"
  by (simp add: diarization_stage_def)

lemma process_audio_ignores_store:
  "fst (process_audio (svc\<lparr>storage_service_store_transcript := store_a\<rparr>) st f cid) =
   fst (process_audio (svc\<lparr>storage_service_store_transcript := store_b\<rparr>) st f cid)"
  by (simp add: process_audio_def noise_stage_def diarization_stage_def
        assemble_transcript_def get_case_details_def Let_def
      split: sum.splits option.splits)

lemma process_audio_with_model_name:
  "fst (process_audio (example_services\<lparr>model_name := Inr ''base''\<rparr>) 5 ''uploads/a.wav'' None) =
     Inr \<lparr>tr_id = ''u1'',
          tr_segments = [\<lparr>fs_id = ''u0'', fs_speaker = ''Unknown'', fs_text = ''Order.'',
                          fs_start_time = 0, fs_end_time = 4, fs_confidence = 0\<rparr>],
          tr_metadata = \<lparr>md_created_at = ''2024-01-01T10:00:00'', md_audio_file = ''a.wav'',
                          md_processing_time = 3, md_model = ''whisper-base'',
                          md_device = ''cpu'', md_speakers_detected = 0, md_case_id = None\<rparr>,
          tr_case_details = None,
          tr_status = ''success''\<rparr>"
  by (simp add: process_audio_def example_services_def noise_stage_def diarization_stage_def
        assemble_transcript_def combine_transcription_with_speakers_def fuse_one_def
        find_best_speaker_def basename_def)

text \<open>
  C6. The exceptions of the noise filter, of the diarizer and of the storage call are
  absorbed and an exception of the recogniser is raised again, as the claim says
  (\<open>noise_stage_absorbs\<close>, \<open>diarization_stage_absorbs\<close>, \<open>process_audio_ignores_store\<close>,
  \<open>process_audio_recognition_fails\<close>). But the recogniser is not the only source: the
  metadata read \<open>self.model.name\<close> outside every \<open>try\<close>, and for a model object without
  this attribute \<open>process_audio\<close> raises \<open>AttributeError\<close> after a successful recognition,
  before the storage call.
\<close>

theorem process_audio_model_name_escapes:
  "model_transcribe example_services (noise_stage example_services ''uploads/a.wav'') =
     Inr [\<lparr>seg_start = 0, seg_end = 4, seg_text = ''Order.'', seg_confidence = None\<rparr>] \<and>
   model_name example_services = Inl (AttributeError ''Whisper object has no attribute name'') \<and>
   process_audio example_services 5 ''uploads/a.wav'' None =
     (Inl (AttributeError ''Whisper object has no attribute name''), 5)"
  by (simp add: process_audio_def assemble_transcript_def example_services_def Let_def)

end
